theory Spec2Isabelle
  imports Complex_Main
begin

section \<open>Values, errors and the array operations the processors use\<close>

text \<open>
  An exception of the Python program is a value of type \<open>error\<close>, and a function that
  may raise returns \<open>error + 'a\<close> with \<open>Inl\<close> for the exception. \<open>KeyError k\<close> is the
  failed subscript of a dict or of a data frame with key \<open>k\<close>. The other two are the
  ValueErrors of the array library: \<open>BroadcastError m n\<close> is "operands could not be
  broadcast together with shapes (m,) (n,)", \<open>WindowLengthError\<close> is the smoothing
  filter's "window_length must be less than or equal to the size of x".
\<close>

datatype error = KeyError string | BroadcastError nat nat | WindowLengthError

text \<open>
  A parameter value is a Python int or a Python float; the float is named by the
  decimal literal of the source. The program only stores and returns these values.
\<close>

datatype pynum = PyInt int | PyFloat real

type_synonym params = "string \<rightharpoonup> pynum"

text \<open>The subscript \<open>d[k]\<close> of a dict: a missing key raises KeyError.\<close>

definition getitem :: "(string \<rightharpoonup> 'v) \<Rightarrow> string \<Rightarrow> error + 'v" where
  "getitem d k = (case d k of None \<Rightarrow> Inl (KeyError k) | Some v \<Rightarrow> Inr v)"

text \<open>
  A one-dimensional array is the list of its elements. \<open>np_slice start step xs\<close> is the
  slice \<open>xs[start::step]\<close> for \<open>step > 0\<close>: the elements at \<open>start\<close>, \<open>start + step\<close>, ...
  below the length; it is empty when \<open>start\<close> is not below the length.
\<close>

definition np_slice :: "nat \<Rightarrow> nat \<Rightarrow> 'a list \<Rightarrow> 'a list" where
  "np_slice start step xs =
     map (\<lambda>i. xs ! (start + i * step)) [0..<(length xs - start + step - 1) div step]"

text \<open>
  The elementwise \<open>a - b\<close> of two one-dimensional arrays, with the library's
  broadcasting: equal lengths subtract pairwise, an array of length one is stretched
  to the other's length (also to length zero), any other pair of lengths raises.
  The element type only needs its own subtraction.
\<close>

definition np_subtract :: "'a::minus list \<Rightarrow> 'a list \<Rightarrow> error + 'a list" where
  "np_subtract a b =
     (if length a = length b then Inr (map2 (-) a b)
      else if length a = 1 then Inr (map (\<lambda>y. hd a - y) b)
      else if length b = 1 then Inr (map (\<lambda>x. x - hd b) a)
      else Inl (BroadcastError (length a) (length b)))"

section \<open>The signal processors and the dispatcher\<close>

text \<open>
  Modelled from the spec: \<open>savgol_filter\<close> is the smoothing routine of the signal
  library, which is not part of the repository's sources. The spec gives it a fixed
  window, a failure for an input shorter than the window and an output as long as the
  input. The smoothed value at each index is left to the parameter \<open>sg\<close>, which stands
  for the local polynomial fit (floating point arithmetic of the library).
\<close>

definition savgol_filter ::
  "(nat \<Rightarrow> nat \<Rightarrow> 'a list \<Rightarrow> nat \<Rightarrow> 'a) \<Rightarrow> 'a list \<Rightarrow> nat \<Rightarrow> nat \<Rightarrow> error + 'a list" where
  "savgol_filter sg x window_length polyorder =
     (if length x < window_length then Inl WindowLengthError
      else Inr (map (sg window_length polyorder x) [0..<length x]))"

definition process_lsv ::
  "(nat \<Rightarrow> nat \<Rightarrow> 'a list \<Rightarrow> nat \<Rightarrow> 'a) \<Rightarrow> 'p list \<Rightarrow> 'a list \<Rightarrow> params \<Rightarrow> error + 'a list" where
  "process_lsv sg potential current params =
     (case getitem params ''scan_rate'' of Inl e \<Rightarrow> Inl e | Inr scan_rate \<Rightarrow>
        (case savgol_filter sg current 21 2 of Inl e \<Rightarrow> Inl e | Inr corrected \<Rightarrow>
           Inr corrected))"

definition process_dpv :: "'p list \<Rightarrow> 'a::minus list \<Rightarrow> params \<Rightarrow> error + 'a list" where
  "process_dpv potential current params =
     (case getitem params ''amplitude'' of Inl e \<Rightarrow> Inl e | Inr pulse_amplitude \<Rightarrow>
      (case getitem params ''step_potential'' of Inl e \<Rightarrow> Inl e | Inr step_potential \<Rightarrow>
        (let forward_current = np_slice 0 2 current;
             backward_current = np_slice 1 2 current
         in case np_subtract forward_current backward_current of
              Inl e \<Rightarrow> Inl e
            | Inr difference_current \<Rightarrow> Inr difference_current)))"

definition process_swv :: "'p list \<Rightarrow> 'a::minus list \<Rightarrow> params \<Rightarrow> error + 'a list" where
  "process_swv potential current params =
     (case getitem params ''frequency'' of Inl e \<Rightarrow> Inl e | Inr frequency \<Rightarrow>
      (case getitem params ''amplitude'' of Inl e \<Rightarrow> Inl e | Inr amplitude \<Rightarrow>
        (let forward_current = np_slice 0 2 current;
             backward_current = np_slice 1 2 current
         in case np_subtract forward_current backward_current of
              Inl e \<Rightarrow> Inl e
            | Inr net_current \<Rightarrow> Inr net_current)))"

text \<open>
  The dispatcher returns what the chosen processor returns; when no branch matches,
  the function body ends and Python returns \<open>None\<close>, here the value \<open>None\<close> of the
  option type. A returned array is \<open>Some\<close> of it.
\<close>

definition apply_technique ::
  "(nat \<Rightarrow> nat \<Rightarrow> 'a list \<Rightarrow> nat \<Rightarrow> 'a) \<Rightarrow> 'p list \<Rightarrow> 'a::minus list \<Rightarrow> string \<Rightarrow> params
     \<Rightarrow> error + 'a list option" where
  "apply_technique sg potential current technique params =
     (if technique = ''LSV'' then map_sum id Some (process_lsv sg potential current params)
      else if technique = ''DPV'' then map_sum id Some (process_dpv potential current params)
      else if technique = ''SWV'' then map_sum id Some (process_swv potential current params)
      else Inr None)"

section \<open>The parameter optimizer\<close>

text \<open>
  A data frame is the map from its column names to its columns; \<open>data[c]\<close> of a
  missing column raises KeyError. The arguments of the dispatcher call are evaluated
  from left to right, so the two columns are read before the table of defaults.
  The returned dict is the two deposition entries overridden by the technique's
  defaults, as the dict display with \<open>**\<close> builds it.
\<close>

definition technique_params :: "string \<rightharpoonup> params" where
  "technique_params =
     [''LSV'' \<mapsto> [''scan_rate'' \<mapsto> PyFloat 0.05],
      ''DPV'' \<mapsto> [''amplitude'' \<mapsto> PyFloat 0.025, ''step_potential'' \<mapsto> PyFloat 0.004],
      ''SWV'' \<mapsto> [''frequency'' \<mapsto> PyInt 25, ''amplitude'' \<mapsto> PyFloat 0.025]]"

definition optimize_asv_parameters ::
  "(nat \<Rightarrow> nat \<Rightarrow> 'a list \<Rightarrow> nat \<Rightarrow> 'a) \<Rightarrow> (string \<rightharpoonup> 'a::minus list) \<Rightarrow> string \<Rightarrow> string
     \<Rightarrow> error + params" where
  "optimize_asv_parameters sg data metal technique =
     (case getitem data ''Potential'' of Inl e \<Rightarrow> Inl e | Inr potential \<Rightarrow>
      (case getitem data ''Current'' of Inl e \<Rightarrow> Inl e | Inr current \<Rightarrow>
       (case getitem technique_params technique of Inl e \<Rightarrow> Inl e | Inr defaults \<Rightarrow>
        (case apply_technique sg potential current technique defaults of
           Inl e \<Rightarrow> Inl e
         | Inr processed_current \<Rightarrow>
            (case getitem technique_params technique of Inl e \<Rightarrow> Inl e | Inr defaults' \<Rightarrow>
               Inr ([''deposition_potential'' \<mapsto> PyFloat (- 1.2),
                     ''deposition_time'' \<mapsto> PyInt 120] ++ defaults'))))))"

section \<open>The same operations on an explicit store\<close>

text \<open>
  To speak about mutation and aliasing, arrays are placed in a store of buffers: the
  store is the list of the buffers allocated so far and an address is an index into
  it. An array object is a view of a buffer: the buffer's address, the index of the
  first element, the stride and the number of elements. Slicing an array makes a
  second view of the same buffer and allocates nothing; the binary \<open>a - b\<close> allocates
  a new buffer for its result. An exception leaves the store as it is.
\<close>

type_synonym 'a store = "'a list list"

record ndarray =
  buffer :: nat
  start :: nat
  stride :: nat
  len :: nat

definition elems :: "'a store \<Rightarrow> ndarray \<Rightarrow> 'a list" where
  "elems h v = map (\<lambda>i. (h ! buffer v) ! (start v + i * stride v)) [0..<len v]"

text \<open>A view is well formed in a store when each of its elements lies in its buffer.\<close>

definition wf_view :: "'a store \<Rightarrow> ndarray \<Rightarrow> bool" where
  "wf_view h v \<longleftrightarrow>
     buffer v < length h \<and> (\<forall>i<len v. start v + i * stride v < length (h ! buffer v))"

definition view_slice :: "nat \<Rightarrow> nat \<Rightarrow> ndarray \<Rightarrow> ndarray" where
  "view_slice s k v =
     v\<lparr>start := start v + s * stride v, stride := stride v * k,
       len := (len v - s + k - 1) div k\<rparr>"

definition alloc :: "'a store \<Rightarrow> 'a list \<Rightarrow> ndarray \<times> 'a store" where
  "alloc h xs = (\<lparr>buffer = length h, start = 0, stride = 1, len = length xs\<rparr>, h @ [xs])"

definition subtract_st ::
  "'a::minus store \<Rightarrow> ndarray \<Rightarrow> ndarray \<Rightarrow> (error + ndarray) \<times> 'a store" where
  "subtract_st h a b =
     (case np_subtract (elems h a) (elems h b) of
        Inl e \<Rightarrow> (Inl e, h)
      | Inr r \<Rightarrow> (let (v, h') = alloc h r in (Inr v, h')))"

text \<open>
  Modelled from the spec: the smoothing routine of the signal library, on the store.
  By the spec, smoothing produces a new output sequence and does not write to its
  input, so the smoothed values go to a new buffer; a failure allocates nothing.
\<close>

definition savgol_filter_st ::
  "(nat \<Rightarrow> nat \<Rightarrow> 'a list \<Rightarrow> nat \<Rightarrow> 'a) \<Rightarrow> 'a store \<Rightarrow> ndarray \<Rightarrow> nat \<Rightarrow> nat
     \<Rightarrow> (error + ndarray) \<times> 'a store" where
  "savgol_filter_st sg h x window_length polyorder =
     (case savgol_filter sg (elems h x) window_length polyorder of
        Inl e \<Rightarrow> (Inl e, h)
      | Inr y \<Rightarrow> (let (v, h') = alloc h y in (Inr v, h')))"

definition process_lsv_st ::
  "(nat \<Rightarrow> nat \<Rightarrow> 'a list \<Rightarrow> nat \<Rightarrow> 'a) \<Rightarrow> 'a store \<Rightarrow> ndarray \<Rightarrow> ndarray \<Rightarrow> params
     \<Rightarrow> (error + ndarray) \<times> 'a store" where
  "process_lsv_st sg h potential current params =
     (case getitem params ''scan_rate'' of Inl e \<Rightarrow> (Inl e, h) | Inr scan_rate \<Rightarrow>
        savgol_filter_st sg h current 21 2)"

definition process_dpv_st ::
  "'a::minus store \<Rightarrow> ndarray \<Rightarrow> ndarray \<Rightarrow> params \<Rightarrow> (error + ndarray) \<times> 'a store" where
  "process_dpv_st h potential current params =
     (case getitem params ''amplitude'' of Inl e \<Rightarrow> (Inl e, h) | Inr pulse_amplitude \<Rightarrow>
      (case getitem params ''step_potential'' of Inl e \<Rightarrow> (Inl e, h) | Inr step_potential \<Rightarrow>
        (let forward_current = view_slice 0 2 current;
             backward_current = view_slice 1 2 current
         in subtract_st h forward_current backward_current)))"

definition process_swv_st ::
  "'a::minus store \<Rightarrow> ndarray \<Rightarrow> ndarray \<Rightarrow> params \<Rightarrow> (error + ndarray) \<times> 'a store" where
  "process_swv_st h potential current params =
     (case getitem params ''frequency'' of Inl e \<Rightarrow> (Inl e, h) | Inr frequency \<Rightarrow>
      (case getitem params ''amplitude'' of Inl e \<Rightarrow> (Inl e, h) | Inr amplitude \<Rightarrow>
        (let forward_current = view_slice 0 2 current;
             backward_current = view_slice 1 2 current
         in subtract_st h forward_current backward_current)))"

definition returned :: "(error + 'r) \<times> 's \<Rightarrow> (error + 'r option) \<times> 's" where
  "returned p = (map_sum id Some (fst p), snd p)"

definition apply_technique_st ::
  "(nat \<Rightarrow> nat \<Rightarrow> 'a list \<Rightarrow> nat \<Rightarrow> 'a) \<Rightarrow> 'a::minus store \<Rightarrow> ndarray \<Rightarrow> ndarray \<Rightarrow> string
     \<Rightarrow> params \<Rightarrow> (error + ndarray option) \<times> 'a store" where
  "apply_technique_st sg h potential current technique params =
     (if technique = ''LSV'' then returned (process_lsv_st sg h potential current params)
      else if technique = ''DPV'' then returned (process_dpv_st h potential current params)
      else if technique = ''SWV'' then returned (process_swv_st h potential current params)
      else (Inr None, h))"

definition optimize_asv_parameters_st ::
  "(nat \<Rightarrow> nat \<Rightarrow> 'a list \<Rightarrow> nat \<Rightarrow> 'a) \<Rightarrow> 'a::minus store \<Rightarrow> (string \<rightharpoonup> ndarray) \<Rightarrow> string
     \<Rightarrow> string \<Rightarrow> (error + params) \<times> 'a store" where
  "optimize_asv_parameters_st sg h data metal technique =
     (case getitem data ''Potential'' of Inl e \<Rightarrow> (Inl e, h) | Inr potential \<Rightarrow>
      (case getitem data ''Current'' of Inl e \<Rightarrow> (Inl e, h) | Inr current \<Rightarrow>
       (case getitem technique_params technique of Inl e \<Rightarrow> (Inl e, h) | Inr defaults \<Rightarrow>
        (case apply_technique_st sg h potential current technique defaults of
           (Inl e, h') \<Rightarrow> (Inl e, h')
         | (Inr processed_current, h') \<Rightarrow>
            (case getitem technique_params technique of
               Inl e \<Rightarrow> (Inl e, h')
             | Inr defaults' \<Rightarrow>
                (Inr ([''deposition_potential'' \<mapsto> PyFloat (- 1.2),
                       ''deposition_time'' \<mapsto> PyInt 120] ++ defaults'), h'))))))"

section \<open>Slices and elementwise subtraction\<close>

lemma length_np_slice_0_2: "length (np_slice 0 2 xs) = (length xs + 1) div 2"
  by (simp add: np_slice_def)

lemma length_np_slice_1_2:
  "length (np_slice 1 2 xs) = length xs div 2"
  "length (np_slice (Suc 0) 2 xs) = length xs div 2"
  by (simp_all add: np_slice_def)

lemma nth_np_slice:
  "i < (length xs - s + k - 1) div k \<Longrightarrow> np_slice s k xs ! i = xs ! (s + i * k)"
  by (simp add: np_slice_def)

lemma np_subtract_same_length:
  "length a = length b \<Longrightarrow> np_subtract a b = Inr (map2 (-) a b)"
  by (simp add: np_subtract_def)

lemma np_subtract_pairs:
  assumes "even (length xs)"
  shows "np_subtract (np_slice 0 2 xs) (np_slice 1 2 xs) =
           Inr (map (\<lambda>i. xs ! (2 * i) - xs ! (2 * i + 1)) [0..<length xs div 2])"
proof -
  from assms have eq: "(length xs + 1) div 2 = length xs div 2"
    by presburger
  have "map2 (-) (np_slice 0 2 xs) (np_slice 1 2 xs) =
          map (\<lambda>i. xs ! (2 * i) - xs ! (2 * i + 1)) [0..<length xs div 2]"
  proof (rule nth_equalityI)
    show "length (map2 (-) (np_slice 0 2 xs) (np_slice 1 2 xs)) =
            length (map (\<lambda>i. xs ! (2 * i) - xs ! (2 * i + 1)) [0..<length xs div 2])"
      by (simp add: length_np_slice_0_2 length_np_slice_1_2 eq)
  next
    fix i assume "i < length (map2 (-) (np_slice 0 2 xs) (np_slice 1 2 xs))"
    then have i: "i < length xs div 2"
      by (simp add: length_np_slice_0_2 length_np_slice_1_2)
    then have "np_slice 0 2 xs ! i = xs ! (2 * i)" "np_slice 1 2 xs ! i = xs ! (2 * i + 1)"
      by (simp_all add: nth_np_slice mult.commute)
    with i show "map2 (-) (np_slice 0 2 xs) (np_slice 1 2 xs) ! i =
                   map (\<lambda>i. xs ! (2 * i) - xs ! (2 * i + 1)) [0..<length xs div 2] ! i"
      by (simp add: length_np_slice_0_2 length_np_slice_1_2 eq)
  qed
  moreover have "length (np_slice 0 2 xs) = length (np_slice 1 2 xs)"
    using eq by (simp only: length_np_slice_0_2 length_np_slice_1_2)
  ultimately show ?thesis
    by (simp only: np_subtract_same_length)
qed

lemma np_subtract_odd_long:
  assumes "odd (length xs)" "5 \<le> length xs"
  shows "np_subtract (np_slice 0 2 xs) (np_slice 1 2 xs) =
           Inl (BroadcastError ((length xs + 1) div 2) (length xs div 2))"
proof -
  from assms have "(length xs + 1) div 2 \<noteq> length xs div 2"
    "(length xs + 1) div 2 \<noteq> 1" "length xs div 2 \<noteq> 1"
    by presburger+
  then show ?thesis
    by (simp add: np_subtract_def length_np_slice_0_2 length_np_slice_1_2)
qed

section \<open>Dispatch and the differencing processors\<close>

lemma process_dpv_keys:
  assumes "params ''amplitude'' \<noteq> None" "params ''step_potential'' \<noteq> None"
  shows "process_dpv potential current params =
           np_subtract (np_slice 0 2 current) (np_slice 1 2 current)"
  using assms by (auto simp: process_dpv_def getitem_def Let_def split: sum.splits)

lemma process_swv_keys:
  assumes "params ''frequency'' \<noteq> None" "params ''amplitude'' \<noteq> None"
  shows "process_swv potential current params =
           np_subtract (np_slice 0 2 current) (np_slice 1 2 current)"
  using assms by (auto simp: process_swv_def getitem_def Let_def split: sum.splits)

lemma apply_technique_DPV:
  "apply_technique sg potential current ''DPV'' params =
     map_sum id Some (process_dpv potential current params)"
  by (simp add: apply_technique_def)

lemma apply_technique_SWV:
  "apply_technique sg potential current ''SWV'' params =
     map_sum id Some (process_swv potential current params)"
  by (simp add: apply_technique_def)

lemma apply_technique_LSV:
  "apply_technique sg potential current ''LSV'' params =
     map_sum id Some (process_lsv sg potential current params)"
  by (simp add: apply_technique_def)

text \<open>
  C1: on a current array of even length \<open>N\<close>, with the parameters each processor reads
  present, \<open>process_dpv\<close> and \<open>process_swv\<close>, and the dispatcher with technique DPV or SWV,
  return one array of length \<open>N div 2\<close> whose element \<open>i\<close> is
  \<open>current[2i] - current[2i+1]\<close>. The potential array plays no part.
\<close>

theorem dpv_swv_even_length:
  assumes "even (length current)"
    and "params_dpv ''amplitude'' \<noteq> None" and "params_dpv ''step_potential'' \<noteq> None"
    and "params_swv ''frequency'' \<noteq> None" and "params_swv ''amplitude'' \<noteq> None"
  shows "\<exists>out. length out = length current div 2
           \<and> (\<forall>i<length current div 2. out ! i = current ! (2 * i) - current ! (2 * i + 1))
           \<and> process_dpv potential current params_dpv = Inr out
           \<and> process_swv potential current params_swv = Inr out
           \<and> apply_technique sg potential current ''DPV'' params_dpv = Inr (Some out)
           \<and> apply_technique sg potential current ''SWV'' params_swv = Inr (Some out)"
proof -
  let ?out = "map (\<lambda>i. current ! (2 * i) - current ! (2 * i + 1)) [0..<length current div 2]"
  have sub: "np_subtract (np_slice 0 2 current) (np_slice 1 2 current) = Inr ?out"
    using assms(1) by (rule np_subtract_pairs)
  have dpv: "process_dpv potential current params_dpv = Inr ?out"
    using sub by (simp add: process_dpv_keys [OF assms(2,3)])
  have swv: "process_swv potential current params_swv = Inr ?out"
    using sub by (simp add: process_swv_keys [OF assms(4,5)])
  have "length ?out = length current div 2"
    by simp
  moreover have "\<forall>i<length current div 2. ?out ! i = current ! (2 * i) - current ! (2 * i + 1)"
    by simp
  moreover have "apply_technique sg potential current ''DPV'' params_dpv = Inr (Some ?out)"
    by (simp add: apply_technique_DPV dpv)
  moreover have "apply_technique sg potential current ''SWV'' params_swv = Inr (Some ?out)"
    by (simp add: apply_technique_SWV swv)
  ultimately show ?thesis
    using dpv swv by blast
qed

theorem dpv_swv_even_length_witness:
  "even (length [10, 2, 8, 4 :: int])
   \<and> process_dpv [0, 1, 2, 3 :: int] [10, 2, 8, 4 :: int]
        [''amplitude'' \<mapsto> PyFloat 0.025, ''step_potential'' \<mapsto> PyFloat 0.004] = Inr [8, 4]
   \<and> apply_technique (\<lambda>w p x i. x ! i) [0, 1, 2, 3 :: int] [10, 2, 8, 4 :: int] ''SWV''
        [''frequency'' \<mapsto> PyInt 25, ''amplitude'' \<mapsto> PyFloat 0.025] = Inr (Some [8, 4])"
proof -
  let ?pd = "[''amplitude'' \<mapsto> PyFloat 0.025, ''step_potential'' \<mapsto> PyFloat 0.004]"
  let ?ps = "[''frequency'' \<mapsto> PyInt 25, ''amplitude'' \<mapsto> PyFloat 0.025]"
  have ev: "even (length [10, 2, 8, 4 :: int])" by simp
  have k: "?pd ''amplitude'' \<noteq> None" "?pd ''step_potential'' \<noteq> None"
    "?ps ''frequency'' \<noteq> None" "?ps ''amplitude'' \<noteq> None"
    by simp_all
  let ?c = "[10, 2, 8, 4 :: int]"
  from dpv_swv_even_length [OF ev k, of "[0, 1, 2, 3 :: int]" "\<lambda>w p x i. x ! i"]
  obtain out where o1: "length out = length ?c div 2"
    and o2: "\<forall>i<length ?c div 2. out ! i = ?c ! (2 * i) - ?c ! (2 * i + 1)"
    and r: "process_dpv [0, 1, 2, 3 :: int] ?c ?pd = Inr out"
      "apply_technique (\<lambda>w p x i. x ! i) [0, 1, 2, 3 :: int] ?c ''SWV'' ?ps = Inr (Some out)"
    by blast
  from o2 have "out ! 0 = 8" "out ! 1 = 4"
    by simp_all
  with o1 have "out = [8, 4]"
    by (cases out; cases "tl out") auto
  with ev r show ?thesis by simp
qed

text \<open>
  C2: the claim asks, for an odd number \<open>N\<close> of samples, for the \<open>(N - 1) div 2\<close>
  differences of the complete pairs, the trailing sample being dropped. The
  processors do not do that. On the five samples \<open>[1, 2, 3, 4, 5]\<close> the claim's
  result is \<open>[1 - 2, 3 - 4]\<close>; the forward slice has three elements and the backward
  slice two, the subtraction raises and nothing is returned. On the three samples
  \<open>[10, 2, 8]\<close> the claim's result is \<open>[10 - 2]\<close>; the result has two elements, the
  second being the trailing sample minus the backward sample of the first pair.
\<close>

theorem dpv_swv_odd_length_failing_input:
  "process_dpv [0, 1, 2, 3, 4 :: int] [1, 2, 3, 4, 5 :: int]
     [''amplitude'' \<mapsto> PyFloat 0.025, ''step_potential'' \<mapsto> PyFloat 0.004]
     = Inl (BroadcastError 3 2)
   \<and> process_swv [0, 1, 2, 3, 4 :: int] [1, 2, 3, 4, 5 :: int]
     [''frequency'' \<mapsto> PyInt 25, ''amplitude'' \<mapsto> PyFloat 0.025]
     = Inl (BroadcastError 3 2)
   \<and> process_dpv [0, 1, 2 :: int] [10, 2, 8 :: int]
     [''amplitude'' \<mapsto> PyFloat 0.025, ''step_potential'' \<mapsto> PyFloat 0.004]
     = Inr [8, 6]
   \<and> process_swv [0, 1, 2 :: int] [10, 2, 8 :: int]
     [''frequency'' \<mapsto> PyInt 25, ''amplitude'' \<mapsto> PyFloat 0.025]
     = Inr [8, 6]"
  by (simp add: process_dpv_def process_swv_def getitem_def np_subtract_def np_slice_def
      upt_rec)

text \<open>
  C6: for parameter dicts holding the keys each processor reads, \<open>process_swv\<close> and
  \<open>process_dpv\<close> give the same outcome on every current array, be it an array or an
  exception; neither looks at the potential array.
\<close>

theorem process_swv_eq_process_dpv:
  assumes "params_dpv ''amplitude'' \<noteq> None" and "params_dpv ''step_potential'' \<noteq> None"
    and "params_swv ''frequency'' \<noteq> None" and "params_swv ''amplitude'' \<noteq> None"
  shows "process_swv potential current params_swv = process_dpv potential' current params_dpv"
  by (simp only: process_dpv_keys [OF assms(1,2)] process_swv_keys [OF assms(3,4)])

theorem process_swv_eq_process_dpv_witness:
  "process_swv [0, 1, 2, 3 :: int] [10, 2, 8, 4 :: int]
      [''frequency'' \<mapsto> PyInt 25, ''amplitude'' \<mapsto> PyFloat 0.025] = Inr [8, 4]
   \<and> process_dpv [0, 1, 2, 3 :: int] [10, 2, 8, 4 :: int]
      [''amplitude'' \<mapsto> PyFloat 0.025, ''step_potential'' \<mapsto> PyFloat 0.004] = Inr [8, 4]"
proof -
  let ?pd = "[''amplitude'' \<mapsto> PyFloat 0.025, ''step_potential'' \<mapsto> PyFloat 0.004]"
  let ?ps = "[''frequency'' \<mapsto> PyInt 25, ''amplitude'' \<mapsto> PyFloat 0.025]"
  have k: "?pd ''amplitude'' \<noteq> None" "?pd ''step_potential'' \<noteq> None"
    "?ps ''frequency'' \<noteq> None" "?ps ''amplitude'' \<noteq> None"
    by simp_all
  have d: "process_dpv [0, 1, 2, 3 :: int] [10, 2, 8, 4 :: int] ?pd = Inr [8, 4]"
    by (simp add: process_dpv_def getitem_def np_subtract_def np_slice_def upt_rec)
  have e: "process_swv [0, 1, 2, 3 :: int] [10, 2, 8, 4 :: int] ?ps
             = process_dpv [0, 1, 2, 3 :: int] [10, 2, 8, 4 :: int] ?pd"
    by (rule process_swv_eq_process_dpv [OF k])
  show ?thesis
    by (simp only: e d)
qed

text \<open>
  C3: for a technique other than LSV, DPV and SWV the dispatcher returns \<open>None\<close>:
  no array, and no exception, whatever the arrays and the parameters are.
\<close>

theorem apply_technique_unrecognized:
  assumes "technique \<notin> {''LSV'', ''DPV'', ''SWV''}"
  shows "apply_technique sg potential current technique params = Inr None"
  using assms by (simp add: apply_technique_def)

theorem apply_technique_unrecognized_witness:
  "''CV'' \<notin> {''LSV'', ''DPV'', ''SWV''}
   \<and> apply_technique (\<lambda>w p x i. x ! i) [0, 1, 2, 3 :: int] [10, 2, 8, 4 :: int] ''CV'' Map.empty
       = Inr None"
proof -
  have h: "''CV'' \<notin> {''LSV'', ''DPV'', ''SWV''}" by simp
  from h apply_technique_unrecognized [OF h] show ?thesis by blast
qed

section \<open>The smoothing processor\<close>

lemma process_lsv_keys:
  assumes "params ''scan_rate'' \<noteq> None"
  shows "process_lsv sg potential current params = savgol_filter sg current 21 2"
  using assms by (auto simp: process_lsv_def getitem_def split: sum.splits)

lemma process_lsv_no_key:
  assumes "params ''scan_rate'' = None"
  shows "process_lsv sg potential current params = Inl (KeyError ''scan_rate'')"
  using assms by (simp add: process_lsv_def getitem_def)

lemma savgol_filter_short:
  "length x < w \<Longrightarrow> savgol_filter sg x w p = Inl WindowLengthError"
  by (simp add: savgol_filter_def)

lemma savgol_filter_long:
  "w \<le> length x \<Longrightarrow> \<exists>y. savgol_filter sg x w p = Inr y \<and> length y = length x"
  by (simp add: savgol_filter_def)

text \<open>
  C4: \<open>process_lsv\<close> on fewer than 21 samples raises, whatever the parameters are; when
  the parameter \<open>scan_rate\<close> it reads is present, the exception is the smoothing
  filter's window length error, and the dispatcher with technique LSV raises the same.
\<close>

theorem process_lsv_short:
  assumes "length current < 21"
  shows "(\<exists>e. process_lsv sg potential current params = Inl e)
       \<and> (params ''scan_rate'' \<noteq> None \<longrightarrow>
            process_lsv sg potential current params = Inl WindowLengthError
          \<and> apply_technique sg potential current ''LSV'' params = Inl WindowLengthError)"
proof (cases "params ''scan_rate''")
  case None
  then show ?thesis
    by (simp add: process_lsv_no_key)
next
  case (Some v)
  then have "process_lsv sg potential current params = Inl WindowLengthError"
    using assms by (simp add: process_lsv_keys savgol_filter_short)
  then show ?thesis
    by (simp add: apply_technique_LSV)
qed

theorem process_lsv_short_witness:
  "length [1, 2, 3 :: int] < 21
   \<and> process_lsv (\<lambda>w p x i. x ! i) [0, 1, 2 :: int] [1, 2, 3 :: int]
        [''scan_rate'' \<mapsto> PyFloat 0.05] = Inl WindowLengthError"
proof -
  have h: "length [1, 2, 3 :: int] < 21" by simp
  have k: "[''scan_rate'' \<mapsto> PyFloat 0.05] ''scan_rate'' \<noteq> None" by simp
  from process_lsv_short [OF h, of "\<lambda>w p x i. x ! i" "[0, 1, 2 :: int]"
      "[''scan_rate'' \<mapsto> PyFloat 0.05]"] k h
  show ?thesis by blast
qed

text \<open>
  C7: on at least 21 samples, with the parameter \<open>scan_rate\<close> present, \<open>process_lsv\<close>
  returns an array, and the array is as long as the input.
\<close>

theorem process_lsv_length:
  assumes "21 \<le> length current" and "params ''scan_rate'' \<noteq> None"
  shows "\<exists>out. process_lsv sg potential current params = Inr out
           \<and> length out = length current"
  using savgol_filter_long [OF assms(1)] assms(2) by (simp add: process_lsv_keys)

theorem process_lsv_length_witness:
  "21 \<le> length (replicate 25 (3 :: int))
   \<and> (\<exists>out. process_lsv (\<lambda>w p x i. x ! i) (replicate 25 (0 :: int)) (replicate 25 (3 :: int))
               [''scan_rate'' \<mapsto> PyFloat 0.05] = Inr out
          \<and> length out = 25)"
proof -
  have h: "21 \<le> length (replicate 25 (3 :: int))" by simp
  have k: "[''scan_rate'' \<mapsto> PyFloat 0.05] ''scan_rate'' \<noteq> None" by simp
  from process_lsv_length [where params = "[''scan_rate'' \<mapsto> PyFloat 0.05]"
      and sg = "\<lambda>w p x i. x ! i" and potential = "replicate 25 (0 :: int)", OF h k] h
  show ?thesis by simp
qed

section \<open>The parameter optimizer: defaults and failures\<close>

lemma technique_params_LSV:
  "technique_params ''LSV'' = Some [''scan_rate'' \<mapsto> PyFloat 0.05]"
  by (simp add: technique_params_def)

lemma technique_params_DPV:
  "technique_params ''DPV'' =
     Some [''amplitude'' \<mapsto> PyFloat 0.025, ''step_potential'' \<mapsto> PyFloat 0.004]"
  by (simp add: technique_params_def)

lemma technique_params_SWV:
  "technique_params ''SWV'' = Some [''frequency'' \<mapsto> PyInt 25, ''amplitude'' \<mapsto> PyFloat 0.025]"
  by (simp add: technique_params_def)

lemma technique_params_other:
  "technique \<notin> {''LSV'', ''DPV'', ''SWV''} \<Longrightarrow> technique_params technique = None"
  by (simp add: technique_params_def)

lemma optimize_asv_parameters_columns:
  assumes "data ''Potential'' = Some potential" and "data ''Current'' = Some current"
    and "technique_params technique = Some defaults"
  shows "optimize_asv_parameters sg data metal technique =
           (case apply_technique sg potential current technique defaults of
              Inl e \<Rightarrow> Inl e
            | Inr processed_current \<Rightarrow>
                Inr ([''deposition_potential'' \<mapsto> PyFloat (- 1.2),
                      ''deposition_time'' \<mapsto> PyInt 120] ++ defaults))"
  using assms by (simp add: optimize_asv_parameters_def getitem_def split: sum.splits)

text \<open>
  C5, as stated, fails: the optimizer runs the dispatcher on the data before it
  returns, and the dispatcher's exception leaves it without a result. It does so
  for LSV on a one-sample sweep, which is shorter than the smoothing window, and
  for DPV on a five-sample sweep.
\<close>

theorem optimize_asv_parameters_defaults_counterexample:
  "optimize_asv_parameters (\<lambda>w p x i. x ! i)
      [''Potential'' \<mapsto> [0 :: int], ''Current'' \<mapsto> [1]] ''Pb'' ''LSV''
     = Inl WindowLengthError
   \<and> optimize_asv_parameters (\<lambda>w p x i. x ! i)
      [''Potential'' \<mapsto> [0, 1, 2, 3, 4 :: int], ''Current'' \<mapsto> [1, 2, 3, 4, 5]] ''Pb'' ''DPV''
     = Inl (BroadcastError 3 2)"
proof -
  let ?d5 = "[''Potential'' \<mapsto> [0, 1, 2, 3, 4 :: int], ''Current'' \<mapsto> [1, 2, 3, 4, 5]]"
  let ?d1 = "[''Potential'' \<mapsto> [0 :: int], ''Current'' \<mapsto> [1]]"
  have "apply_technique (\<lambda>w p x i. x ! i) [0, 1, 2, 3, 4 :: int] [1, 2, 3, 4, 5 :: int] ''DPV''
          [''amplitude'' \<mapsto> PyFloat 0.025, ''step_potential'' \<mapsto> PyFloat 0.004]
        = Inl (BroadcastError 3 2)"
    by (simp add: apply_technique_DPV process_dpv_def getitem_def np_subtract_def np_slice_def)
  moreover have "?d5 ''Potential'' = Some [0, 1, 2, 3, 4]" "?d5 ''Current'' = Some [1, 2, 3, 4, 5]"
    by simp_all
  ultimately have a: "optimize_asv_parameters (\<lambda>w p x i. x ! i) ?d5 ''Pb'' ''DPV''
      = Inl (BroadcastError 3 2)"
    by (simp only: optimize_asv_parameters_columns [OF _ _ technique_params_DPV] sum.case)
  have "apply_technique (\<lambda>w p x i. x ! i) [0 :: int] [1 :: int] ''LSV''
          [''scan_rate'' \<mapsto> PyFloat 0.05] = Inl WindowLengthError"
    by (simp add: apply_technique_LSV process_lsv_def getitem_def savgol_filter_def)
  moreover have "?d1 ''Potential'' = Some [0]" "?d1 ''Current'' = Some [1]"
    by simp_all
  ultimately have b: "optimize_asv_parameters (\<lambda>w p x i. x ! i) ?d1 ''Pb'' ''LSV''
      = Inl WindowLengthError"
    by (simp only: optimize_asv_parameters_columns [OF _ _ technique_params_LSV] sum.case)
  from b a show ?thesis ..
qed

text \<open>
  C5, amended: for a data frame with both columns and every metal, the optimizer
  returns exactly the technique's defaults together with \<open>deposition_potential = -1.2\<close>
  and \<open>deposition_time = 120\<close> for LSV on at least 21 samples and for DPV and SWV on
  an even number of samples; the result depends neither on the metal nor on the
  sample values. For LSV on fewer than 21 samples it raises the smoothing filter's
  window length error and returns no parameter set. For each technique that has
  defaults, an exception of the dispatcher call on the data is the optimizer's
  outcome and no parameter set is returned.
\<close>

theorem optimize_asv_parameters_defaults:
  assumes "data ''Potential'' = Some potential" and "data ''Current'' = Some current"
  shows "(21 \<le> length current \<longrightarrow>
            optimize_asv_parameters sg data metal ''LSV''
              = Inr [''scan_rate'' \<mapsto> PyFloat 0.05,
                     ''deposition_potential'' \<mapsto> PyFloat (- 1.2),
                     ''deposition_time'' \<mapsto> PyInt 120])
       \<and> (length current < 21 \<longrightarrow>
            optimize_asv_parameters sg data metal ''LSV'' = Inl WindowLengthError)
       \<and> (even (length current) \<longrightarrow>
            optimize_asv_parameters sg data metal ''DPV''
              = Inr [''amplitude'' \<mapsto> PyFloat 0.025, ''step_potential'' \<mapsto> PyFloat 0.004,
                     ''deposition_potential'' \<mapsto> PyFloat (- 1.2),
                     ''deposition_time'' \<mapsto> PyInt 120]
          \<and> optimize_asv_parameters sg data metal ''SWV''
              = Inr [''frequency'' \<mapsto> PyInt 25, ''amplitude'' \<mapsto> PyFloat 0.025,
                     ''deposition_potential'' \<mapsto> PyFloat (- 1.2),
                     ''deposition_time'' \<mapsto> PyInt 120])
       \<and> (\<forall>technique defaults e.
            technique_params technique = Some defaults
            \<and> apply_technique sg potential current technique defaults = Inl e \<longrightarrow>
            optimize_asv_parameters sg data metal technique = Inl e)"
proof -
  let ?pl = "[''scan_rate'' \<mapsto> PyFloat 0.05]"
  let ?dep = "[''deposition_potential'' \<mapsto> PyFloat (- 1.2), ''deposition_time'' \<mapsto> PyInt 120]"
  have kl: "?pl ''scan_rate'' \<noteq> None" by simp
  have lsv: "optimize_asv_parameters sg data metal ''LSV''
      = Inr [''scan_rate'' \<mapsto> PyFloat 0.05, ''deposition_potential'' \<mapsto> PyFloat (- 1.2),
             ''deposition_time'' \<mapsto> PyInt 120]"
    if "21 \<le> length current"
  proof -
    from that kl obtain out where
      "process_lsv sg potential current ?pl = Inr out"
      using process_lsv_keys savgol_filter_long by (metis (no_types))
    then have "apply_technique sg potential current ''LSV'' ?pl = Inr (Some out)"
      by (simp add: apply_technique_LSV)
    then have "optimize_asv_parameters sg data metal ''LSV'' = Inr (?dep ++ ?pl)"
      by (simp only: optimize_asv_parameters_columns [OF assms technique_params_LSV] sum.case)
    also have "?dep ++ ?pl
        = [''scan_rate'' \<mapsto> PyFloat 0.05, ''deposition_potential'' \<mapsto> PyFloat (- 1.2),
             ''deposition_time'' \<mapsto> PyInt 120]"
      by (rule ext) simp
    finally show ?thesis .
  qed
  have short: "optimize_asv_parameters sg data metal ''LSV'' = Inl WindowLengthError"
    if "length current < 21"
  proof -
    from that kl have "process_lsv sg potential current ?pl = Inl WindowLengthError"
      by (simp add: process_lsv_keys savgol_filter_short)
    then have "apply_technique sg potential current ''LSV'' ?pl = Inl WindowLengthError"
      by (simp add: apply_technique_LSV)
    then show ?thesis
      by (simp only: optimize_asv_parameters_columns [OF assms technique_params_LSV] sum.case)
  qed
  have pairs: "optimize_asv_parameters sg data metal ''DPV''
        = Inr [''amplitude'' \<mapsto> PyFloat 0.025, ''step_potential'' \<mapsto> PyFloat 0.004,
               ''deposition_potential'' \<mapsto> PyFloat (- 1.2), ''deposition_time'' \<mapsto> PyInt 120]
      \<and> optimize_asv_parameters sg data metal ''SWV''
        = Inr [''frequency'' \<mapsto> PyInt 25, ''amplitude'' \<mapsto> PyFloat 0.025,
               ''deposition_potential'' \<mapsto> PyFloat (- 1.2), ''deposition_time'' \<mapsto> PyInt 120]"
    if "even (length current)"
  proof -
    let ?pd = "[''amplitude'' \<mapsto> PyFloat 0.025, ''step_potential'' \<mapsto> PyFloat 0.004]"
    let ?ps = "[''frequency'' \<mapsto> PyInt 25, ''amplitude'' \<mapsto> PyFloat 0.025]"
    from np_subtract_pairs [OF that] obtain out where
      sub: "np_subtract (np_slice 0 2 current) (np_slice 1 2 current) = Inr out" ..
    have kd: "?pd ''amplitude'' \<noteq> None" "?pd ''step_potential'' \<noteq> None" by simp_all
    have "process_dpv potential current ?pd = Inr out"
      using sub by (simp only: process_dpv_keys [OF kd])
    then have "apply_technique sg potential current ''DPV'' ?pd = Inr (Some out)"
      by (simp add: apply_technique_DPV)
    then have d: "optimize_asv_parameters sg data metal ''DPV'' = Inr (?dep ++ ?pd)"
      by (simp only: optimize_asv_parameters_columns [OF assms technique_params_DPV] sum.case)
    have ks: "?ps ''frequency'' \<noteq> None" "?ps ''amplitude'' \<noteq> None" by simp_all
    have "process_swv potential current ?ps = Inr out"
      using sub by (simp only: process_swv_keys [OF ks])
    then have "apply_technique sg potential current ''SWV'' ?ps = Inr (Some out)"
      by (simp add: apply_technique_SWV)
    then have s: "optimize_asv_parameters sg data metal ''SWV'' = Inr (?dep ++ ?ps)"
      by (simp only: optimize_asv_parameters_columns [OF assms technique_params_SWV] sum.case)
    have "?dep ++ ?pd = [''amplitude'' \<mapsto> PyFloat 0.025, ''step_potential'' \<mapsto> PyFloat 0.004,
               ''deposition_potential'' \<mapsto> PyFloat (- 1.2), ''deposition_time'' \<mapsto> PyInt 120]"
      by (rule ext) simp
    moreover have "?dep ++ ?ps = [''frequency'' \<mapsto> PyInt 25, ''amplitude'' \<mapsto> PyFloat 0.025,
               ''deposition_potential'' \<mapsto> PyFloat (- 1.2), ''deposition_time'' \<mapsto> PyInt 120]"
      by (rule ext) simp
    ultimately show ?thesis
      using d s by simp
  qed
  have raises: "optimize_asv_parameters sg data metal technique = Inl e"
    if "technique_params technique = Some defaults"
      and "apply_technique sg potential current technique defaults = Inl e"
    for technique defaults e
    by (simp add: optimize_asv_parameters_columns [OF assms that(1)] that(2))
  from lsv short pairs raises show ?thesis by blast
qed

theorem optimize_asv_parameters_defaults_witness:
  "optimize_asv_parameters (\<lambda>w p x i. x ! i)
      [''Potential'' \<mapsto> [0, 1, 2, 3 :: int], ''Current'' \<mapsto> [10, 2, 8, 4]] ''Pb'' ''DPV''
     = Inr [''amplitude'' \<mapsto> PyFloat 0.025, ''step_potential'' \<mapsto> PyFloat 0.004,
            ''deposition_potential'' \<mapsto> PyFloat (- 1.2), ''deposition_time'' \<mapsto> PyInt 120]
   \<and> optimize_asv_parameters (\<lambda>w p x i. x ! i)
      [''Potential'' \<mapsto> replicate 21 (0 :: int), ''Current'' \<mapsto> replicate 21 3] ''Cd'' ''LSV''
     = Inr [''scan_rate'' \<mapsto> PyFloat 0.05,
            ''deposition_potential'' \<mapsto> PyFloat (- 1.2), ''deposition_time'' \<mapsto> PyInt 120]
   \<and> length [5, 6, 7 :: int] < 21
   \<and> technique_params ''LSV'' = Some [''scan_rate'' \<mapsto> PyFloat 0.05]
   \<and> apply_technique (\<lambda>w p x i. x ! i) [0, 1, 2 :: int] [5, 6, 7 :: int] ''LSV''
        [''scan_rate'' \<mapsto> PyFloat 0.05] = Inl WindowLengthError
   \<and> optimize_asv_parameters (\<lambda>w p x i. x ! i)
      [''Potential'' \<mapsto> [0, 1, 2 :: int], ''Current'' \<mapsto> [5, 6, 7]] ''Zn'' ''LSV''
     = Inl WindowLengthError"
proof -
  let ?d4 = "[''Potential'' \<mapsto> [0, 1, 2, 3 :: int], ''Current'' \<mapsto> [10, 2, 8, 4]]"
  let ?d21 = "[''Potential'' \<mapsto> replicate 21 (0 :: int), ''Current'' \<mapsto> replicate 21 3]"
  let ?d3 = "[''Potential'' \<mapsto> [0, 1, 2 :: int], ''Current'' \<mapsto> [5, 6, 7]]"
  have c4: "?d4 ''Potential'' = Some [0, 1, 2, 3]" "?d4 ''Current'' = Some [10, 2, 8, 4]"
    by simp_all
  have c21: "?d21 ''Potential'' = Some (replicate 21 0)" "?d21 ''Current'' = Some (replicate 21 3)"
    by simp_all
  have c3: "?d3 ''Potential'' = Some [0, 1, 2]" "?d3 ''Current'' = Some [5, 6, 7]"
    by simp_all
  have h4: "even (length [10, 2, 8, 4 :: int])"
    and h21: "21 \<le> length (replicate 21 (3 :: int))"
    and h3: "length [5, 6, 7 :: int] < 21"
    by simp_all
  have a3: "apply_technique (\<lambda>w p x i. x ! i) [0, 1, 2 :: int] [5, 6, 7 :: int] ''LSV''
      [''scan_rate'' \<mapsto> PyFloat 0.05] = Inl WindowLengthError"
    by (simp add: apply_technique_LSV process_lsv_def getitem_def savgol_filter_def)
  note i3 = optimize_asv_parameters_defaults [OF c3, of "\<lambda>w p x i. x ! i" "''Zn''"]
  from i3 h3 have short: "optimize_asv_parameters (\<lambda>w p x i. x ! i) ?d3 ''Zn'' ''LSV''
      = Inl WindowLengthError"
    by blast
  from i3 technique_params_LSV a3
  have "optimize_asv_parameters (\<lambda>w p x i. x ! i) ?d3 ''Zn'' ''LSV'' = Inl WindowLengthError"
    by blast
  with optimize_asv_parameters_defaults [OF c4, of "\<lambda>w p x i. x ! i" "''Pb''"] h4
    optimize_asv_parameters_defaults [OF c21, of "\<lambda>w p x i. x ! i" "''Cd''"] h21
    h3 technique_params_LSV a3 short
  show ?thesis by blast
qed

text \<open>
  C8: when both columns are present and the technique has defaults, an exception of
  the dispatcher call on the data is the outcome of the optimizer: the same
  exception, and no parameter set.
\<close>

theorem optimize_asv_parameters_propagates:
  assumes "data ''Potential'' = Some potential" and "data ''Current'' = Some current"
    and "technique_params technique = Some defaults"
    and "apply_technique sg potential current technique defaults = Inl e"
  shows "optimize_asv_parameters sg data metal technique = Inl e"
  by (simp add: optimize_asv_parameters_columns [OF assms(1,2,3)] assms(4))

theorem optimize_asv_parameters_propagates_witness:
  "apply_technique (\<lambda>w p x i. x ! i) [0, 1, 2 :: int] [5, 6, 7 :: int] ''LSV''
      [''scan_rate'' \<mapsto> PyFloat 0.05] = Inl WindowLengthError
   \<and> optimize_asv_parameters (\<lambda>w p x i. x ! i)
      [''Potential'' \<mapsto> [0, 1, 2 :: int], ''Current'' \<mapsto> [5, 6, 7]] ''Pb'' ''LSV''
     = Inl WindowLengthError"
proof -
  let ?d = "[''Potential'' \<mapsto> [0, 1, 2 :: int], ''Current'' \<mapsto> [5, 6, 7]]"
  have c: "?d ''Potential'' = Some [0, 1, 2]" "?d ''Current'' = Some [5, 6, 7]"
    by simp_all
  have a: "apply_technique (\<lambda>w p x i. x ! i) [0, 1, 2 :: int] [5, 6, 7 :: int] ''LSV''
      [''scan_rate'' \<mapsto> PyFloat 0.05] = Inl WindowLengthError"
    by (simp add: apply_technique_LSV process_lsv_def getitem_def savgol_filter_def)
  from a optimize_asv_parameters_propagates [OF c technique_params_LSV a, of "''Pb''"]
  show ?thesis ..
qed

text \<open>
  C10: for a technique other than LSV, DPV and SWV the optimizer raises KeyError on
  every data frame: with both columns present it is the subscript of the table of
  defaults by the technique that fails, with the technique as the key, and the
  dispatcher is not reached. The dispatcher itself returns \<open>None\<close> for such a
  technique.
\<close>

theorem optimize_asv_parameters_unrecognized:
  assumes "technique \<notin> {''LSV'', ''DPV'', ''SWV''}"
  shows "(\<exists>k. optimize_asv_parameters sg data metal technique = Inl (KeyError k))
       \<and> (data ''Potential'' \<noteq> None \<and> data ''Current'' \<noteq> None \<longrightarrow>
            optimize_asv_parameters sg data metal technique = Inl (KeyError technique))
       \<and> apply_technique sg potential current technique params = Inr None"
proof -
  from assms have t: "technique_params technique = None"
    by (rule technique_params_other)
  have "apply_technique sg potential current technique params = Inr None"
    using assms by (simp add: apply_technique_def)
  moreover have "optimize_asv_parameters sg data metal technique = Inl (KeyError technique)"
    if "data ''Potential'' \<noteq> None \<and> data ''Current'' \<noteq> None"
    using that t by (auto simp: optimize_asv_parameters_def getitem_def)
  moreover have "\<exists>k. optimize_asv_parameters sg data metal technique = Inl (KeyError k)"
    using t by (auto simp: optimize_asv_parameters_def getitem_def split: option.splits)
  ultimately show ?thesis by blast
qed

theorem optimize_asv_parameters_unrecognized_witness:
  "''CV'' \<notin> {''LSV'', ''DPV'', ''SWV''}
   \<and> optimize_asv_parameters (\<lambda>w p x i. x ! i)
        [''Potential'' \<mapsto> [0, 1, 2, 3 :: int], ''Current'' \<mapsto> [10, 2, 8, 4]] ''Pb'' ''CV''
       = Inl (KeyError ''CV'')
   \<and> apply_technique (\<lambda>w p x i. x ! i) [0, 1, 2, 3 :: int] [10, 2, 8, 4 :: int] ''CV'' Map.empty
       = Inr None"
proof -
  let ?d = "[''Potential'' \<mapsto> [0, 1, 2, 3 :: int], ''Current'' \<mapsto> [10, 2, 8, 4]]"
  have h: "''CV'' \<notin> {''LSV'', ''DPV'', ''SWV''}" by simp
  have c: "?d ''Potential'' \<noteq> None \<and> ?d ''Current'' \<noteq> None" by simp
  from h c optimize_asv_parameters_unrecognized [OF h, of "\<lambda>w p x i. x ! i" ?d "''Pb''"
      "[0, 1, 2, 3 :: int]" "[10, 2, 8, 4 :: int]" Map.empty]
  show ?thesis by blast
qed

section \<open>Arrays in the store: slices are views, results are new buffers\<close>

lemma slice_index_in_range:
  assumes "0 < k" and "i < (n - s + k - 1) div k"
  shows "s + i * k < (n :: nat)"
proof -
  from assms have "Suc i * k \<le> n - s + k - 1"
    by (simp only: Suc_le_eq [symmetric] less_eq_div_iff_mult_less_eq)
  then have "i * k + k \<le> n - s + k - 1"
    by simp
  with assms(1) show ?thesis
    by arith
qed

lemma length_elems: "length (elems h v) = len v"
  by (simp add: elems_def)

lemma elems_view_slice:
  assumes "0 < k"
  shows "elems h (view_slice s k v) = np_slice s k (elems h v)"
proof -
  let ?n = "(len v - s + k - 1) div k"
  have pointwise: "(h ! buffer v) ! (start v + s * stride v + i * (stride v * k))
          = elems h v ! (s + i * k)"
    if "i < ?n" for i
  proof -
    from assms that have "s + i * k < len v"
      by (rule slice_index_in_range)
    then show ?thesis
      by (simp add: elems_def algebra_simps)
  qed
  have "elems h (view_slice s k v)
          = map (\<lambda>i. (h ! buffer v) ! (start v + s * stride v + i * (stride v * k))) [0..<?n]"
    by (simp add: elems_def view_slice_def)
  also have "\<dots> = map (\<lambda>i. elems h v ! (s + i * k)) [0..<?n]"
    by (rule map_cong) (simp_all add: pointwise)
  also have "\<dots> = np_slice s k (elems h v)"
    by (simp add: np_slice_def length_elems)
  finally show ?thesis .
qed

lemma elems_append:
  "buffer v < length h \<Longrightarrow> elems (h @ new) v = elems h v"
  by (simp add: elems_def nth_append)

lemma elems_alloc:
  "alloc h xs = (v, h') \<Longrightarrow> elems h' v = xs"
  by (auto simp: alloc_def elems_def intro: nth_equalityI)

lemma alloc_store:
  "alloc h xs = (v, h') \<Longrightarrow> h' = h @ [xs] \<and> buffer v = length h"
  by (auto simp: alloc_def)


lemma subtract_st_store:
  "\<exists>new. snd (subtract_st h a b) = h @ new"
  by (cases "np_subtract (elems h a) (elems h b)") (simp_all add: subtract_st_def alloc_def)

lemma subtract_st_fresh:
  "fst (subtract_st h a b) = Inr out \<Longrightarrow> buffer out = length h"
  by (cases "np_subtract (elems h a) (elems h b)") (auto simp: subtract_st_def alloc_def)

lemma subtract_st_elems:
  "map_sum id (elems (snd (subtract_st h a b))) (fst (subtract_st h a b))
     = np_subtract (elems h a) (elems h b)"
  by (cases "np_subtract (elems h a) (elems h b)")
    (auto simp: subtract_st_def alloc_def elems_def intro: nth_equalityI)

lemma savgol_filter_st_store:
  "\<exists>new. snd (savgol_filter_st sg h x w p) = h @ new"
  by (cases "savgol_filter sg (elems h x) w p") (simp_all add: savgol_filter_st_def alloc_def)

lemma savgol_filter_st_fresh:
  "fst (savgol_filter_st sg h x w p) = Inr out \<Longrightarrow> buffer out = length h"
  by (cases "savgol_filter sg (elems h x) w p") (auto simp: savgol_filter_st_def alloc_def)

lemma process_lsv_st_store:
  "\<exists>new. snd (process_lsv_st sg h potential current params) = h @ new"
  using savgol_filter_st_store [of sg h current 21 2]
  by (cases "params ''scan_rate''") (simp_all add: process_lsv_st_def getitem_def)

lemma process_lsv_st_fresh:
  "fst (process_lsv_st sg h potential current params) = Inr out \<Longrightarrow> buffer out = length h"
  using savgol_filter_st_fresh [of sg h current 21 2 out]
  by (cases "params ''scan_rate''") (simp_all add: process_lsv_st_def getitem_def)

lemma process_dpv_st_store:
  "\<exists>new. snd (process_dpv_st h potential current params) = h @ new"
  using subtract_st_store [of h "view_slice 0 2 current" "view_slice 1 2 current"]
  by (cases "params ''amplitude''"; cases "params ''step_potential''")
    (simp_all add: process_dpv_st_def getitem_def)

lemma process_dpv_st_fresh:
  "fst (process_dpv_st h potential current params) = Inr out \<Longrightarrow> buffer out = length h"
  using subtract_st_fresh [of h "view_slice 0 2 current" "view_slice 1 2 current" out]
  by (cases "params ''amplitude''"; cases "params ''step_potential''")
    (simp_all add: process_dpv_st_def getitem_def)

lemma process_swv_st_store:
  "\<exists>new. snd (process_swv_st h potential current params) = h @ new"
  using subtract_st_store [of h "view_slice 0 2 current" "view_slice 1 2 current"]
  by (cases "params ''frequency''"; cases "params ''amplitude''")
    (simp_all add: process_swv_st_def getitem_def)

lemma process_swv_st_fresh:
  "fst (process_swv_st h potential current params) = Inr out \<Longrightarrow> buffer out = length h"
  using subtract_st_fresh [of h "view_slice 0 2 current" "view_slice 1 2 current" out]
  by (cases "params ''frequency''"; cases "params ''amplitude''")
    (simp_all add: process_swv_st_def getitem_def)

lemma apply_technique_st_store:
  "\<exists>new. snd (apply_technique_st sg h potential current technique params) = h @ new"
  using process_lsv_st_store [of sg h potential current params]
    process_dpv_st_store [of h potential current params]
    process_swv_st_store [of h potential current params]
  by (simp add: apply_technique_st_def returned_def)

lemma apply_technique_st_fresh:
  assumes "fst (apply_technique_st sg h potential current technique params) = Inr (Some out)"
  shows "buffer out = length h"
proof -
  consider "fst (process_lsv_st sg h potential current params) = Inr out"
    | "fst (process_dpv_st h potential current params) = Inr out"
    | "fst (process_swv_st h potential current params) = Inr out"
    using assms
    by (auto simp: apply_technique_st_def returned_def map_sum_def split: if_splits sum.splits)
  then show ?thesis
    by cases (rule process_lsv_st_fresh process_dpv_st_fresh process_swv_st_fresh; assumption)+
qed

lemma optimize_asv_parameters_st_store:
  "\<exists>new. snd (optimize_asv_parameters_st sg h data metal technique) = h @ new"
proof (cases "data ''Potential''")
  case None
  then show ?thesis by (simp add: optimize_asv_parameters_st_def getitem_def)
next
  case p: (Some potential)
  show ?thesis
  proof (cases "data ''Current''")
    case None
    with p show ?thesis by (simp add: optimize_asv_parameters_st_def getitem_def)
  next
    case c: (Some current)
    show ?thesis
    proof (cases "technique_params technique")
      case None
      with p c show ?thesis by (simp add: optimize_asv_parameters_st_def getitem_def)
    next
      case d: (Some defaults)
      obtain r h' where a: "apply_technique_st sg h potential current technique defaults = (r, h')"
        by (cases "apply_technique_st sg h potential current technique defaults")
      with apply_technique_st_store [of sg h potential current technique defaults]
      obtain new where "h' = h @ new" by auto
      with p c d a show ?thesis
        by (cases r) (simp_all add: optimize_asv_parameters_st_def getitem_def)
    qed
  qed
qed

text \<open>Slices of well formed views and newly allocated arrays are well formed.\<close>

lemma wf_view_slice:
  assumes "wf_view h v" and "0 < k"
  shows "wf_view h (view_slice s k v)"
proof -
  have "start v + s * stride v + i * (stride v * k) < length (h ! buffer v)"
    if "i < (len v - s + k - 1) div k" for i
  proof -
    from assms(2) that have "s + i * k < len v"
      by (rule slice_index_in_range)
    with assms(1) have "start v + (s + i * k) * stride v < length (h ! buffer v)"
      by (simp add: wf_view_def)
    then show ?thesis
      by (simp add: algebra_simps)
  qed
  with assms(1) show ?thesis
    by (simp add: wf_view_def view_slice_def)
qed

lemma wf_view_alloc:
  "alloc h xs = (v, h') \<Longrightarrow> wf_view h' v"
  by (auto simp: alloc_def wf_view_def)

lemma wf_view_append:
  "wf_view h v \<Longrightarrow> wf_view (h @ new) v"
  by (simp add: wf_view_def nth_append)

section \<open>The store operations compute what the operations on lists compute\<close>

lemma savgol_filter_st_elems:
  "map_sum id (elems (snd (savgol_filter_st sg h x w p))) (fst (savgol_filter_st sg h x w p))
     = savgol_filter sg (elems h x) w p"
  by (cases "savgol_filter sg (elems h x) w p")
    (auto simp: savgol_filter_st_def alloc_def elems_def intro: nth_equalityI)

lemma process_lsv_st_elems:
  "map_sum id (elems (snd (process_lsv_st sg h potential current params)))
       (fst (process_lsv_st sg h potential current params))
     = process_lsv sg (elems h potential) (elems h current) params"
proof (cases "params ''scan_rate''")
  case None
  then show ?thesis
    by (simp add: process_lsv_st_def process_lsv_def getitem_def)
next
  case (Some v)
  then have "process_lsv_st sg h potential current params = savgol_filter_st sg h current 21 2"
    by (simp add: process_lsv_st_def getitem_def)
  moreover from Some have "process_lsv sg (elems h potential) (elems h current) params
      = savgol_filter sg (elems h current) 21 2"
    by (simp add: process_lsv_keys)
  ultimately show ?thesis
    by (simp only: savgol_filter_st_elems)
qed

lemma process_dpv_st_elems:
  "map_sum id (elems (snd (process_dpv_st h potential current params)))
       (fst (process_dpv_st h potential current params))
     = process_dpv (elems h potential) (elems h current) params"
proof (cases "params ''amplitude'' \<noteq> None \<and> params ''step_potential'' \<noteq> None")
  case False
  then show ?thesis
    by (auto simp: process_dpv_st_def process_dpv_def getitem_def split: option.splits)
next
  case True
  then have "process_dpv_st h potential current params
      = subtract_st h (view_slice 0 2 current) (view_slice 1 2 current)"
    by (auto simp: process_dpv_st_def getitem_def)
  moreover from True have "process_dpv (elems h potential) (elems h current) params
      = np_subtract (np_slice 0 2 (elems h current)) (np_slice 1 2 (elems h current))"
    by (simp add: process_dpv_keys)
  ultimately show ?thesis
    by (simp only: subtract_st_elems elems_view_slice [OF pos2])
qed

lemma process_swv_st_elems:
  "map_sum id (elems (snd (process_swv_st h potential current params)))
       (fst (process_swv_st h potential current params))
     = process_swv (elems h potential) (elems h current) params"
proof (cases "params ''frequency'' \<noteq> None \<and> params ''amplitude'' \<noteq> None")
  case False
  then show ?thesis
    by (auto simp: process_swv_st_def process_swv_def getitem_def split: option.splits)
next
  case True
  then have "process_swv_st h potential current params
      = subtract_st h (view_slice 0 2 current) (view_slice 1 2 current)"
    by (auto simp: process_swv_st_def getitem_def)
  moreover from True have "process_swv (elems h potential) (elems h current) params
      = np_subtract (np_slice 0 2 (elems h current)) (np_slice 1 2 (elems h current))"
    by (simp add: process_swv_keys)
  ultimately show ?thesis
    by (simp only: subtract_st_elems elems_view_slice [OF pos2])
qed

lemma returned_elems:
  "map_sum id (map_option f) (fst (returned p)) = map_sum id Some (map_sum id f (fst p))"
  "snd (returned p) = snd p"
  by (cases "fst p"; simp add: returned_def)+

lemma apply_technique_st_elems:
  "map_sum id (map_option (elems (snd (apply_technique_st sg h potential current technique params))))
       (fst (apply_technique_st sg h potential current technique params))
     = apply_technique sg (elems h potential) (elems h current) technique params"
  by (simp add: apply_technique_st_def apply_technique_def returned_elems
      process_lsv_st_elems process_dpv_st_elems process_swv_st_elems)

lemma optimize_asv_parameters_st_result:
  "fst (optimize_asv_parameters_st sg h data metal technique)
     = optimize_asv_parameters sg (map_option (elems h) \<circ> data) metal technique"
proof (cases "data ''Potential''")
  case None
  then show ?thesis
    by (simp add: optimize_asv_parameters_st_def optimize_asv_parameters_def getitem_def)
next
  case p: (Some potential)
  show ?thesis
  proof (cases "data ''Current''")
    case None
    with p show ?thesis
      by (simp add: optimize_asv_parameters_st_def optimize_asv_parameters_def getitem_def)
  next
    case c: (Some current)
    show ?thesis
    proof (cases "technique_params technique")
      case None
      with p c show ?thesis
        by (simp add: optimize_asv_parameters_st_def optimize_asv_parameters_def getitem_def)
    next
      case d: (Some defaults)
      obtain r h' where a: "apply_technique_st sg h potential current technique defaults = (r, h')"
        by (cases "apply_technique_st sg h potential current technique defaults")
      with apply_technique_st_elems [of sg h potential current technique defaults]
      have "apply_technique sg (elems h potential) (elems h current) technique defaults
          = map_sum id (map_option (elems h')) r"
        by simp
      with p c d a show ?thesis
        by (cases r)
          (simp_all add: optimize_asv_parameters_st_def optimize_asv_parameters_def getitem_def)
    qed
  qed
qed

section \<open>Inputs are not mutated\<close>

text \<open>
  C9: a call of \<open>process_lsv\<close>, \<open>process_dpv\<close>, \<open>process_swv\<close>, \<open>apply_technique\<close> or
  \<open>optimize_asv_parameters\<close> leaves every buffer of the store it starts in as it was,
  so every array of that store, the potential and current arrays among them, reads
  the same after the call; and an array that a processor or the dispatcher returns
  lies in a buffer that did not exist before the call.
\<close>

theorem inputs_unchanged:
  "(h' \<in> {snd (process_lsv_st sg h potential current params),
           snd (process_dpv_st h potential current params),
           snd (process_swv_st h potential current params),
           snd (apply_technique_st sg h potential current technique params),
           snd (optimize_asv_parameters_st sg h data metal technique)} \<longrightarrow>
      take (length h) h' = h \<and> (\<forall>v. buffer v < length h \<longrightarrow> elems h' v = elems h v))
   \<and> (Inr out \<in> {fst (process_lsv_st sg h potential current params),
                  fst (process_dpv_st h potential current params),
                  fst (process_swv_st h potential current params)}
        \<or> fst (apply_technique_st sg h potential current technique params) = Inr (Some out) \<longrightarrow>
      buffer out = length h)"
proof (intro conjI impI)
  assume "h' \<in> {snd (process_lsv_st sg h potential current params),
           snd (process_dpv_st h potential current params),
           snd (process_swv_st h potential current params),
           snd (apply_technique_st sg h potential current technique params),
           snd (optimize_asv_parameters_st sg h data metal technique)}"
  then obtain new where h': "h' = h @ new"
    using process_lsv_st_store [of sg h potential current params]
      process_dpv_st_store [of h potential current params]
      process_swv_st_store [of h potential current params]
      apply_technique_st_store [of sg h potential current technique params]
      optimize_asv_parameters_st_store [of sg h data metal technique]
    by auto
  then show "take (length h) h' = h"
    by simp
  from h' show "\<forall>v. buffer v < length h \<longrightarrow> elems h' v = elems h v"
    by (simp add: elems_append)
next
  assume "Inr out \<in> {fst (process_lsv_st sg h potential current params),
                  fst (process_dpv_st h potential current params),
                  fst (process_swv_st h potential current params)}
        \<or> fst (apply_technique_st sg h potential current technique params) = Inr (Some out)"
  then consider "fst (process_lsv_st sg h potential current params) = Inr out"
    | "fst (process_dpv_st h potential current params) = Inr out"
    | "fst (process_swv_st h potential current params) = Inr out"
    | "fst (apply_technique_st sg h potential current technique params) = Inr (Some out)"
    by auto
  then show "buffer out = length h"
  proof cases
    case 1 then show ?thesis by (rule process_lsv_st_fresh)
  next
    case 2 then show ?thesis by (rule process_dpv_st_fresh)
  next
    case 3 then show ?thesis by (rule process_swv_st_fresh)
  next
    case 4 then show ?thesis by (rule apply_technique_st_fresh)
  qed
qed

theorem inputs_unchanged_witness:
  "process_dpv_st [[0, 1, 2, 3], [10, 2, 8, 4 :: int]]
      \<lparr>buffer = 0, start = 0, stride = 1, len = 4\<rparr> \<lparr>buffer = 1, start = 0, stride = 1, len = 4\<rparr>
      [''amplitude'' \<mapsto> PyFloat 0.025, ''step_potential'' \<mapsto> PyFloat 0.004]
     = (Inr \<lparr>buffer = 2, start = 0, stride = 1, len = 2\<rparr>,
        [[0, 1, 2, 3], [10, 2, 8, 4], [8, 4]])
   \<and> take 2 [[0, 1, 2, 3], [10, 2, 8, 4], [8, 4 :: int]] = [[0, 1, 2, 3], [10, 2, 8, 4]]
   \<and> elems [[0, 1, 2, 3], [10, 2, 8, 4], [8, 4 :: int]]
        \<lparr>buffer = 1, start = 0, stride = 1, len = 4\<rparr> = [10, 2, 8, 4]
   \<and> buffer \<lparr>buffer = 2, start = 0, stride = 1, len = 2\<rparr> = length [[0, 1, 2, 3], [10, 2, 8, 4 :: int]]"
proof -
  let ?h = "[[0, 1, 2, 3], [10, 2, 8, 4 :: int]]"
  let ?p = "\<lparr>buffer = 0, start = 0, stride = 1, len = 4\<rparr>"
  let ?c = "\<lparr>buffer = 1, start = 0, stride = 1, len = 4\<rparr>"
  let ?o = "\<lparr>buffer = 2, start = 0, stride = 1, len = 2\<rparr>"
  let ?pd = "[''amplitude'' \<mapsto> PyFloat 0.025, ''step_potential'' \<mapsto> PyFloat 0.004]"
  let ?h' = "[[0, 1, 2, 3], [10, 2, 8, 4], [8, 4 :: int]]"
  have run: "process_dpv_st ?h ?p ?c ?pd = (Inr ?o, ?h')"
    by (simp add: process_dpv_st_def getitem_def subtract_st_def view_slice_def elems_def
        np_subtract_def alloc_def upt_rec)
  then have m: "?h' \<in> {snd (process_lsv_st (\<lambda>w p x i. x ! i) ?h ?p ?c ?pd),
           snd (process_dpv_st ?h ?p ?c ?pd),
           snd (process_swv_st ?h ?p ?c ?pd),
           snd (apply_technique_st (\<lambda>w p x i. x ! i) ?h ?p ?c ''DPV'' ?pd),
           snd (optimize_asv_parameters_st (\<lambda>w p x i. x ! i) ?h
                  [''Potential'' \<mapsto> ?p, ''Current'' \<mapsto> ?c] ''Pb'' ''DPV'')}"
    and f: "Inr ?o \<in> {fst (process_lsv_st (\<lambda>w p x i. x ! i) ?h ?p ?c ?pd),
                  fst (process_dpv_st ?h ?p ?c ?pd),
                  fst (process_swv_st ?h ?p ?c ?pd)}
        \<or> fst (apply_technique_st (\<lambda>w p x i. x ! i) ?h ?p ?c ''DPV'' ?pd) = Inr (Some ?o)"
    by simp_all
  have b: "buffer ?c < length ?h"
    by simp
  note inst = inputs_unchanged [of ?h' "\<lambda>w p x i. x ! i" ?h ?p ?c ?pd "''DPV''"
      "[''Potential'' \<mapsto> ?p, ''Current'' \<mapsto> ?c]" "''Pb''" ?o]
  from inst m have "take (length ?h) ?h' = ?h"
    by blast
  moreover from inst m b have "elems ?h' ?c = elems ?h ?c"
    by blast
  moreover from inst f have "buffer ?o = length ?h"
    by blast
  moreover have "elems ?h ?c = [10, 2, 8, 4]"
    by (simp add: elems_def upt_rec)
  ultimately show ?thesis
    using run by simp
qed

end
